theory Spec2Isabelle
  imports Complex_Main
begin

section \<open>Data model\<close>

text \<open>
  The watch-party front end (\<^verbatim>\<open>src/App.jsx\<close>) keeps one shared room document in a
  document store and, per client, a React component \<^verbatim>\<open>Room\<close> that owns an HTML video
  element. Positions are JavaScript numbers, that is, finite IEEE doubles; they are
  modelled as the reals they denote, and the one arithmetic operation the code performs on
  them, the subtraction in the threshold test, is rounded as the double subtraction is
  (\<open>double_minus\<close>). Time stamps of \<^verbatim>\<open>Date.now()\<close> are integers (milliseconds).
\<close>

type_synonym uid = string

text \<open>An entry of \<^verbatim>\<open>participants\<close>; the time stamps are assigned by the store
  (\<^verbatim>\<open>serverTimestamp()\<close>) when the write is applied.\<close>

record participant =
  displayName :: "string option"
  joinedAt :: "nat option"
  lastSeen :: "nat option"

text \<open>The room document. \<^verbatim>\<open>lastSeekTime\<close> is absent until the first seek or video
  change; the code also tolerates an absent \<^verbatim>\<open>currentTime\<close>, so both are options
  (\<open>None\<close> is JavaScript's \<^verbatim>\<open>undefined\<close>).\<close>

record room =
  room_id :: string
  currentVideoUrl :: string
  isPlaying :: bool
  currentTime :: "real option"
  lastSeekTime :: "real option"
  hostId :: uid
  createdAt :: nat
  participants :: "uid \<rightharpoonup> participant"

text \<open>The object handed to \<^verbatim>\<open>updateDoc\<close> by the playback code: every field is
  optional, and only the fields that are present are merged into the document.\<close>

record patch =
  u_currentVideoUrl :: "string option"
  u_isPlaying :: "bool option"
  u_currentTime :: "real option"
  u_lastSeekTime :: "real option"
  u_hostId :: "uid option"

definition empty_patch :: patch where
  "empty_patch = \<lparr>u_currentVideoUrl = None, u_isPlaying = None, u_currentTime = None,
     u_lastSeekTime = None, u_hostId = None\<rparr>"

text \<open>The store writes the program issues: \<^verbatim>\<open>setDoc\<close> of a new room (room id,
  creator, display name), \<^verbatim>\<open>updateDoc\<close> with a playback patch, \<^verbatim>\<open>updateDoc\<close> of
  \<^verbatim>\<open>participants.<uid>\<close> on joining, and of \<^verbatim>\<open>participants.<uid>.lastSeen\<close> every
  30 seconds. User ids are the authentication service's ids or UUIDs; they contain no dot,
  so that such a field path names one key of \<^verbatim>\<open>participants\<close>.\<close>

datatype store_write =
  SetRoom string uid string
| UpdatePlayback patch
| UpdateParticipant uid string
| UpdateLastSeen uid

text \<open>The part of the video element the code reads and writes: \<^verbatim>\<open>player.src\<close>,
  \<^verbatim>\<open>player.paused\<close>, \<^verbatim>\<open>player.currentTime\<close>.\<close>

record player =
  src :: string
  paused :: bool
  player_currentTime :: real

text \<open>What \<^verbatim>\<open>setError\<close> shows to the user. The texts are Portuguese in the source:
  \<open>EmptyVideoUrl\<close> is "URL do video nao pode ser vazia.", \<open>SyncFailed\<close> is
  "Falha ao sincronizar acao. Verifique sua conexao.", \<open>RoomGone\<close> is
  "Sala nao encontrada ou foi excluida.", \<open>NoError\<close> is the empty string.\<close>

datatype notice = NoError | EmptyVideoUrl | SyncFailed | RoomGone

text \<open>The state of one \<^verbatim>\<open>Room\<close> component: its props and hooks.
  \<open>video\<close> is \<^verbatim>\<open>videoRef.current\<close> (\<open>None\<close> while no video element is mounted),
  \<open>lastFirestoreUpdateTime\<close> is \<^verbatim>\<open>lastFirestoreUpdateTimeRef.current\<close>, and \<open>left\<close>
  records that \<^verbatim>\<open>onLeave\<close> was called.\<close>

record client =
  userId :: uid
  roomData :: "room option"
  video :: "player option"
  isSeeking :: bool
  error :: notice
  videoUrlInput :: string
  lastFirestoreUpdateTime :: int
  left :: bool

section \<open>Outbound path: local player events to store writes\<close>

text \<open>\<^verbatim>\<open>String.prototype.trim\<close> on strings of code units below 256: the white space
  and line terminators in that range are TAB, LF, VT, FF, CR, SPACE and NBSP.\<close>

definition is_ws :: "char \<Rightarrow> bool" where
  "is_ws ch = (of_char ch \<in> {9, 10, 11, 12, 13, 32, 160 :: nat})"

definition trim :: "string \<Rightarrow> string" where
  "trim s = rev (dropWhile is_ws (rev (dropWhile is_ws s)))"

datatype action = PLAY | PAUSE | SEEK real | CHANGE_VIDEO string

text \<open>\<^verbatim>\<open>handlePlayerAction\<close> (lines 351-392). The result is the component state after the
  synchronous part and the writes handed to \<^verbatim>\<open>updateDoc\<close>; the completion of the write
  is \<open>action_write_done\<close>.\<close>

definition handlePlayerAction :: "client \<Rightarrow> action \<Rightarrow> client \<times> store_write list" where
  "handlePlayerAction c a =
     (case (roomData c, video c) of
        (Some r, Some p) \<Rightarrow>
          (case a of
             PLAY \<Rightarrow> (c, [UpdatePlayback (empty_patch\<lparr>u_isPlaying := Some True,
                        u_currentTime := Some (player_currentTime p), u_hostId := Some (userId c)\<rparr>)])
           | PAUSE \<Rightarrow> (c, [UpdatePlayback (empty_patch\<lparr>u_isPlaying := Some False,
                        u_currentTime := Some (player_currentTime p), u_hostId := Some (userId c)\<rparr>)])
           | SEEK t \<Rightarrow> (c, [UpdatePlayback (empty_patch\<lparr>u_currentTime := Some t,
                        u_lastSeekTime := Some t, u_isPlaying := Some (\<not> paused p),
                        u_hostId := Some (userId c)\<rparr>)])
           | CHANGE_VIDEO url \<Rightarrow>
               (if trim url = [] then (c\<lparr>error := EmptyVideoUrl\<rparr>, [])
                else (c\<lparr>videoUrlInput := []\<rparr>,
                      [UpdatePlayback \<lparr>u_currentVideoUrl = Some url, u_isPlaying = Some False,
                         u_currentTime = Some 0, u_lastSeekTime = Some 0,
                         u_hostId = Some (userId c)\<rparr>])))
      | _ \<Rightarrow> (c, []))"

text \<open>The continuation of the \<^verbatim>\<open>await updateDoc\<close> in \<^verbatim>\<open>handlePlayerAction\<close>:
  success clears the message, failure reports it; the player is not rolled back.\<close>

definition action_write_done :: "bool \<Rightarrow> client \<Rightarrow> client" where
  "action_write_done ok c = c\<lparr>error := (if ok then NoError else SyncFailed)\<rparr>"

text \<open>The event handlers wired to the video element (lines 395-419). \<^verbatim>\<open>onPlay\<close> and
  \<^verbatim>\<open>onPause\<close> take no argument and consult no flag.\<close>

definition onPlay :: "client \<Rightarrow> client \<times> store_write list" where
  "onPlay c = handlePlayerAction c PLAY"

definition onPause :: "client \<Rightarrow> client \<times> store_write list" where
  "onPause c = handlePlayerAction c PAUSE"

definition onSeeked :: "client \<Rightarrow> client \<times> store_write list" where
  "onSeeked c =
     (case video c of
        Some p \<Rightarrow>
          (if isSeeking c
           then (let (c', ws) = handlePlayerAction c (SEEK (player_currentTime p))
                 in (c'\<lparr>isSeeking := False\<rparr>, ws))
           else (c, []))
      | None \<Rightarrow> (c, []))"

definition onSeeking :: "client \<Rightarrow> client" where
  "onSeeking c = (case video c of Some p \<Rightarrow> c\<lparr>isSeeking := True\<rparr> | None \<Rightarrow> c)"

text \<open>\<^verbatim>\<open>onTimeUpdate\<close> (lines 410-419); \<open>now\<close> is the value of \<^verbatim>\<open>Date.now()\<close>. The
  reference time is not changed here: the source sets it in the \<^verbatim>\<open>then\<close> callback of the
  write, which is \<open>periodic_write_done\<close>, called with the \<open>now\<close> of the issuing call once
  the store has answered (\<open>ok\<close>) or refused.\<close>

definition onTimeUpdate :: "int \<Rightarrow> client \<Rightarrow> client \<times> store_write list" where
  "onTimeUpdate now c =
     (case (video c, roomData c) of
        (Some p, Some r) \<Rightarrow>
          (if hostId r = userId c \<and> \<not> paused p \<and> \<not> isSeeking c
           then (if now - lastFirestoreUpdateTime c > 5000
                 then (c, [UpdatePlayback (empty_patch\<lparr>u_currentTime := Some (player_currentTime p)\<rparr>)])
                 else (c, []))
           else (c, []))
      | _ \<Rightarrow> (c, []))"

definition periodic_write_done :: "int \<Rightarrow> bool \<Rightarrow> client \<Rightarrow> client" where
  "periodic_write_done now ok c = (if ok then c\<lparr>lastFirestoreUpdateTime := now\<rparr> else c)"

text \<open>The button "Carregar Video" (lines 421-425): an empty input is dropped here, before
  the action handler is reached.\<close>

definition handleVideoUrlChange :: "client \<Rightarrow> client \<times> store_write list" where
  "handleVideoUrlChange c =
     (if videoUrlInput c \<noteq> [] then handlePlayerAction c (CHANGE_VIDEO (videoUrlInput c))
      else (c, []))"

section \<open>The video element\<close>

text \<open>
  The video element is the browser's, not the repository's. The calls the inbound path
  makes on it are recorded as commands, and the element answers a call by changing its
  state and by firing events, which reach the handlers above later, from the event loop.
  The element is modelled as far as the handlers can observe it, following the HTML
  standard. What the standard leaves to the browser and the medium is a parameter:
  whether \<^verbatim>\<open>play()\<close> is allowed (the autoplay policy), the resolved, serialised URL that
  the \<^verbatim>\<open>src\<close> getter returns for an assigned URL (for \<^verbatim>\<open>https://X/y.mp4\<close> it is
  \<^verbatim>\<open>https://x/y.mp4\<close>), and the duration of the medium behind a source.
\<close>

record browser =
  autoplay_allowed :: bool
  resolve_url :: "string \<Rightarrow> string"
  media_duration :: "string \<Rightarrow> real"

datatype command = LoadSrc string | CallPlay | CallPause | SetCurrentTime real

datatype event = Play | Pause | Seeking | Seeked | TimeUpdate int

text \<open>Loading a source pauses the element and resets its position; afterwards \<^verbatim>\<open>src\<close>
  reads as the resolved URL.\<close>

definition element_load :: "browser \<Rightarrow> string \<Rightarrow> player \<Rightarrow> player \<times> event list" where
  "element_load env url p =
     (p\<lparr>src := resolve_url env url, paused := True, player_currentTime := 0\<rparr>, [])"

text \<open>\<^verbatim>\<open>play()\<close> on a paused element, when the browser allows it, starts it and fires
  \<^verbatim>\<open>play\<close>, and otherwise rejects and changes nothing; \<^verbatim>\<open>pause()\<close> on a playing element
  fires \<^verbatim>\<open>pause\<close>.\<close>

definition element_play :: "browser \<Rightarrow> player \<Rightarrow> player \<times> event list" where
  "element_play env p =
     (if paused p \<and> autoplay_allowed env then (p\<lparr>paused := False\<rparr>, [Play]) else (p, []))"

definition element_pause :: "player \<Rightarrow> player \<times> event list" where
  "element_pause p = (if paused p then (p, []) else (p\<lparr>paused := True\<rparr>, [Pause]))"

text \<open>Assigning \<^verbatim>\<open>currentTime\<close> seeks, which fires \<^verbatim>\<open>seeking\<close> and then \<^verbatim>\<open>seeked\<close>. The
  seek lands on the new position clamped to the medium: a position before the start
  becomes the start, one after the end becomes the end. The events do not tell whether a
  script or the user caused them.\<close>

definition seek_landing :: "browser \<Rightarrow> string \<Rightarrow> real \<Rightarrow> real" where
  "seek_landing env s t = max 0 (min t (media_duration env s))"

definition element_set_currentTime :: "browser \<Rightarrow> real \<Rightarrow> player \<Rightarrow> player \<times> event list" where
  "element_set_currentTime env t p =
     (p\<lparr>player_currentTime := seek_landing env (src p) t\<rparr>, [Seeking, Seeked])"

section \<open>Double arithmetic\<close>

text \<open>
  The subtraction of two JavaScript numbers is the exact difference rounded to the nearest
  double, ties to the even significand. A double has 53 significant bits, so the spacing
  of the doubles around \<open>x\<close> with \<open>2 ^ e \<le> \<bar>x\<bar> < 2 ^ (e + 1)\<close> is \<open>2 ^ (e - 52)\<close>, and it
  does not fall below that of the exponent -1022 (the subnormal numbers). Overflow to
  infinity is not modelled: positions are finite and far from the largest double.
\<close>

definition round_half_even :: "real \<Rightarrow> int" where
  "round_half_even y =
     (let f = \<lfloor>y\<rfloor>; d = y - of_int f
      in if d < 1 / 2 then f else if 1 / 2 < d then f + 1 else if even f then f else f + 1)"

definition round_double :: "real \<Rightarrow> real" where
  "round_double x =
     (if x = 0 then 0
      else (let e = max \<lfloor>log 2 \<bar>x\<bar>\<rfloor> (- 1022); ulp = power_int 2 (e - 52)
            in of_int (round_half_even (x / ulp)) * ulp))"

definition double_minus :: "real \<Rightarrow> real \<Rightarrow> real" where
  "double_minus a b = round_double (a - b)"

section \<open>Inbound path: room updates to player commands\<close>

definition SYNC_THRESHOLD :: real where
  "SYNC_THRESHOLD = 3 / 2"

text \<open>The \<^verbatim>\<open>onSnapshot\<close> callback of the room document (lines 279-290): \<open>None\<close> is a
  snapshot that does not exist.\<close>

definition onSnapshot ::
  "browser \<Rightarrow> room option \<Rightarrow> client \<Rightarrow> client \<times> command list \<times> event list" where
  "onSnapshot env d c =
     (case d of
        Some data \<Rightarrow>
          (case video c of
             Some p \<Rightarrow>
               (if currentVideoUrl data \<noteq> [] \<and> src p \<noteq> currentVideoUrl data
                then (let (p', es) = element_load env (currentVideoUrl data) p
                      in (c\<lparr>roomData := Some data, video := Some p'\<rparr>,
                          [LoadSrc (currentVideoUrl data)], es))
                else (c\<lparr>roomData := Some data\<rparr>, [], []))
           | None \<Rightarrow> (c\<lparr>roomData := Some data\<rparr>, [], []))
      | None \<Rightarrow> (c\<lparr>error := RoomGone, left := True\<rparr>, [], []))"

text \<open>The synchronisation effect (lines 327-349), statement by statement; each statement
  reads the player as the one before left it.\<close>

definition sync_source ::
  "browser \<Rightarrow> room \<Rightarrow> player \<Rightarrow> player \<times> command list \<times> event list" where
  "sync_source env r p =
     (if currentVideoUrl r \<noteq> [] \<and> src p \<noteq> currentVideoUrl r
      then (let (p', es) = element_load env (currentVideoUrl r) p
            in (p', [LoadSrc (currentVideoUrl r)], es))
      else (p, [], []))"

definition sync_playing ::
  "browser \<Rightarrow> room \<Rightarrow> player \<Rightarrow> player \<times> command list \<times> event list" where
  "sync_playing env r p =
     (if isPlaying r \<and> paused p
      then (let (p', es) = element_play env p in (p', [CallPlay], es))
      else if \<not> isPlaying r \<and> \<not> paused p
      then (let (p', es) = element_pause p in (p', [CallPause], es))
      else (p, [], []))"

definition targetTime :: "room \<Rightarrow> real option" where
  "targetTime r = (case lastSeekTime r of Some t \<Rightarrow> Some t | None \<Rightarrow> currentTime r)"

definition sync_position ::
  "browser \<Rightarrow> bool \<Rightarrow> room \<Rightarrow> player \<Rightarrow> player \<times> command list \<times> event list" where
  "sync_position env seeking r p =
     (case targetTime r of
        Some t \<Rightarrow>
          (if \<bar>double_minus (player_currentTime p) t\<bar> > SYNC_THRESHOLD \<and> \<not> seeking
           then (let (p', es) = element_set_currentTime env t p in (p', [SetCurrentTime t], es))
           else (p, [], []))
      | None \<Rightarrow> (p, [], []))"

definition sync_effect :: "browser \<Rightarrow> client \<Rightarrow> client \<times> command list \<times> event list" where
  "sync_effect env c =
     (case (video c, roomData c) of
        (Some p, Some r) \<Rightarrow>
          (let (p1, cs1, es1) = sync_source env r p;
               (p2, cs2, es2) = sync_playing env r p1;
               (p3, cs3, es3) = sync_position env (isSeeking c) r p2
           in (c\<lparr>video := Some p3\<rparr>, cs1 @ cs2 @ cs3, es1 @ es2 @ es3))
      | _ \<Rightarrow> (c, [], []))"

text \<open>Rendering (lines 525-527 and the \<^verbatim>\<open>video\<close> element of the returned tree): while
  \<^verbatim>\<open>roomData\<close> is null the component shows a loading text only; once it is set, the video
  element is mounted, with no \<^verbatim>\<open>src\<close> attribute of its own, paused, at position 0.\<close>

definition render :: "client \<Rightarrow> client" where
  "render c =
     (case roomData c of
        Some r \<Rightarrow>
          (case video c of
             None \<Rightarrow> c\<lparr>video := Some \<lparr>src = [], paused = True, player_currentTime = 0\<rparr>\<rparr>
           | Some p \<Rightarrow> c)
      | None \<Rightarrow> c)"

text \<open>One room update as the component receives it: the snapshot callback stores the
  record, the component renders, and the effect runs because \<^verbatim>\<open>roomData\<close> changed.\<close>

definition apply_record ::
  "browser \<Rightarrow> room \<Rightarrow> client \<Rightarrow> client \<times> command list \<times> event list" where
  "apply_record env r c =
     (let (c1, cs1, es1) = onSnapshot env (Some r) c;
          (c2, cs2, es2) = sync_effect env (render c1)
      in (c2, cs1 @ cs2, es1 @ es2))"

section \<open>The event loop of one client\<close>

definition dispatch :: "client \<Rightarrow> event \<Rightarrow> client \<times> store_write list" where
  "dispatch c e =
     (case e of
        Play \<Rightarrow> onPlay c
      | Pause \<Rightarrow> onPause c
      | Seeking \<Rightarrow> (onSeeking c, [])
      | Seeked \<Rightarrow> onSeeked c
      | TimeUpdate now \<Rightarrow> onTimeUpdate now c)"

text \<open>A handler that changes \<^verbatim>\<open>isSeeking\<close> makes the effect run again (its dependencies
  are \<^verbatim>\<open>[roomData, isSeeking]\<close>); the events this fires join the queue.\<close>

definition handle_event ::
  "browser \<Rightarrow> client \<Rightarrow> event \<Rightarrow> client \<times> command list \<times> store_write list \<times> event list" where
  "handle_event env c e =
     (let (c1, ws) = dispatch c e
      in if isSeeking c1 \<noteq> isSeeking c
         then (let (c2, cs, es) = sync_effect env c1 in (c2, cs, ws, es))
         else (c1, [], ws, []))"

text \<open>The queue is worked off in order; \<open>None\<close> means the fuel ran out before the queue
  was empty.\<close>

fun event_loop ::
  "nat \<Rightarrow> browser \<Rightarrow> client \<Rightarrow> event list \<Rightarrow> (client \<times> command list \<times> store_write list) option" where
  "event_loop n env c [] = Some (c, [], [])"
| "event_loop 0 env c (e # q) = None"
| "event_loop (Suc n) env c (e # q) =
     (let (c1, cs, ws, es) = handle_event env c e
      in (case event_loop n env c1 (q @ es) of
            None \<Rightarrow> None
          | Some (c2, cs', ws') \<Rightarrow> Some (c2, cs @ cs', ws @ ws')))"

text \<open>A remote update and everything it sets off on this client: the commands given to
  the player and the writes sent to the store.\<close>

definition onRemoteRoomUpdate ::
  "nat \<Rightarrow> browser \<Rightarrow> room \<Rightarrow> client \<Rightarrow> (client \<times> command list \<times> store_write list) option" where
  "onRemoteRoomUpdate fuel env r c =
     (let (c1, cs, es) = apply_record env r c
      in (case event_loop fuel env c1 es of
            None \<Rightarrow> None
          | Some (c2, cs', ws) \<Rightarrow> Some (c2, cs @ cs', ws)))"

section \<open>The store\<close>

text \<open>\<^verbatim>\<open>updateDoc\<close> merges the named fields and fails on a missing document;
  \<^verbatim>\<open>setDoc\<close> replaces the document. \<open>ts\<close> is the store's clock, which resolves
  \<^verbatim>\<open>serverTimestamp()\<close>.\<close>

definition apply_patch :: "patch \<Rightarrow> room \<Rightarrow> room" where
  "apply_patch u r =
     r\<lparr>currentVideoUrl := (case u_currentVideoUrl u of Some v \<Rightarrow> v | None \<Rightarrow> currentVideoUrl r),
       isPlaying := (case u_isPlaying u of Some b \<Rightarrow> b | None \<Rightarrow> isPlaying r),
       currentTime := (case u_currentTime u of Some t \<Rightarrow> Some t | None \<Rightarrow> currentTime r),
       lastSeekTime := (case u_lastSeekTime u of Some t \<Rightarrow> Some t | None \<Rightarrow> lastSeekTime r),
       hostId := (case u_hostId u of Some h \<Rightarrow> h | None \<Rightarrow> hostId r)\<rparr>"

definition new_participant :: "string \<Rightarrow> nat \<Rightarrow> participant" where
  "new_participant name ts = \<lparr>displayName = Some name, joinedAt = Some ts, lastSeen = Some ts\<rparr>"

definition touch_participant :: "nat \<Rightarrow> participant option \<Rightarrow> participant" where
  "touch_participant ts e =
     (case e of
        Some x \<Rightarrow> x\<lparr>lastSeen := Some ts\<rparr>
      | None \<Rightarrow> \<lparr>displayName = None, joinedAt = None, lastSeen = Some ts\<rparr>)"

definition apply_write :: "nat \<Rightarrow> store_write \<Rightarrow> room option \<Rightarrow> room option" where
  "apply_write ts w d =
     (case w of
        SetRoom rid u name \<Rightarrow>
          Some \<lparr>room_id = rid, currentVideoUrl = [], isPlaying = False, currentTime = Some 0,
                lastSeekTime = None, hostId = u, createdAt = ts,
                participants = [u \<mapsto> new_participant name ts]\<rparr>
      | UpdatePlayback u \<Rightarrow> map_option (apply_patch u) d
      | UpdateParticipant u name \<Rightarrow>
          map_option (\<lambda>r. r\<lparr>participants := (participants r)(u \<mapsto> new_participant name ts)\<rparr>) d
      | UpdateLastSeen u \<Rightarrow>
          map_option (\<lambda>r. r\<lparr>participants :=
            (participants r)(u \<mapsto> touch_participant ts (participants r u))\<rparr>) d)"

section \<open>Creating and joining a room\<close>

text \<open>\<^verbatim>\<open>createRoom\<close> and \<^verbatim>\<open>joinRoom\<close> of the \<^verbatim>\<open>App\<close> component (lines 115-169), as the
  writes they issue. A user id or display name that is not set is the empty string;
  \<open>rid\<close> is the fresh id drawn by \<^verbatim>\<open>crypto.randomUUID\<close>, \<open>found\<close> the result of
  \<^verbatim>\<open>roomSnap.exists()\<close>. On success the component \<^verbatim>\<open>Room\<close> is mounted for that user.\<close>

definition createRoom :: "uid \<Rightarrow> string \<Rightarrow> string \<Rightarrow> store_write list" where
  "createRoom u name rid = (if u = [] \<or> name = [] then [] else [SetRoom rid u name])"

definition joinRoom :: "uid \<Rightarrow> string \<Rightarrow> string \<Rightarrow> bool \<Rightarrow> store_write list" where
  "joinRoom u name roomIdFromInput found =
     (if u = [] \<or> name = [] then []
      else if trim roomIdFromInput = [] then []
      else if found then [UpdateParticipant u name]
      else [])"

text \<open>The 30-second liveness timer of a mounted \<^verbatim>\<open>Room\<close> (lines 307-317).\<close>

definition heartbeat :: "uid \<Rightarrow> string \<Rightarrow> store_write list" where
  "heartbeat u rid = (if u \<noteq> [] \<and> rid \<noteq> [] then [UpdateLastSeen u] else [])"

text \<open>
  The states one room can reach: the document in the store and the set of users for whom
  the \<^verbatim>\<open>Room\<close> component has been mounted for it. \<^verbatim>\<open>App\<close> mounts \<^verbatim>\<open>Room\<close> only after
  \<^verbatim>\<open>createRoom\<close> or \<^verbatim>\<open>joinRoom\<close> succeeded, and only a mounted \<^verbatim>\<open>Room\<close> handles player
  events. Leaving a room writes nothing, and a write issued before leaving may still arrive,
  so users stay in the set. The client state \<open>c\<close> of an acting user is arbitrary: its copy
  of the document may be stale.

  \<^verbatim>\<open>createRoom\<close> draws eight hexadecimal digits and calls \<^verbatim>\<open>setDoc\<close> without looking whether
  a document of that id exists. The flag \<open>collide\<close> tells whether such a draw may hit the
  id of the room: then the document is replaced, and the users mounted for it stay
  mounted.
\<close>

inductive reachable :: "bool \<Rightarrow> room \<Rightarrow> uid set \<Rightarrow> bool" for collide :: bool where
  created:
    "w \<in> set (createRoom u name rid) \<Longrightarrow> apply_write ts w None = Some r \<Longrightarrow>
     reachable collide r {u}"
| recreated:
    "reachable collide r M \<Longrightarrow> collide \<Longrightarrow> w \<in> set (createRoom u name (room_id r)) \<Longrightarrow>
     apply_write ts w (Some r) = Some r' \<Longrightarrow> reachable collide r' (insert u M)"
| joined:
    "reachable collide r M \<Longrightarrow> w \<in> set (joinRoom u name (room_id r) True) \<Longrightarrow>
     apply_write ts w (Some r) = Some r' \<Longrightarrow> reachable collide r' (insert u M)"
| acted:
    "reachable collide r M \<Longrightarrow> userId c \<in> M \<Longrightarrow> w \<in> set (snd (handlePlayerAction c a)) \<Longrightarrow>
     apply_write ts w (Some r) = Some r' \<Longrightarrow> reachable collide r' M"
| drifted:
    "reachable collide r M \<Longrightarrow> userId c \<in> M \<Longrightarrow> w \<in> set (snd (onTimeUpdate now c)) \<Longrightarrow>
     apply_write ts w (Some r) = Some r' \<Longrightarrow> reachable collide r' M"
| refreshed:
    "reachable collide r M \<Longrightarrow> u \<in> M \<Longrightarrow> w \<in> set (heartbeat u (room_id r)) \<Longrightarrow>
     apply_write ts w (Some r) = Some r' \<Longrightarrow> reachable collide r' M"

definition apply_writes :: "nat \<Rightarrow> store_write list \<Rightarrow> room option \<Rightarrow> room option" where
  "apply_writes ts ws d = fold (apply_write ts) ws d"

section \<open>Notions used in the statements\<close>

text \<open>A client is converged with a record when its player has the record's source loaded
  (its \<^verbatim>\<open>src\<close> reads as the resolved URL of the record), its paused flag is the negation of
  \<^verbatim>\<open>isPlaying\<close>, and its position is within the threshold of the target (nothing is asked of
  the position when the record has no target).\<close>

definition converged :: "browser \<Rightarrow> room \<Rightarrow> player \<Rightarrow> bool" where
  "converged env r p =
     (src p = resolve_url env (currentVideoUrl r) \<and> paused p = (\<not> isPlaying r) \<and>
      (case targetTime r of
         Some t \<Rightarrow> \<bar>player_currentTime p - t\<bar> \<le> SYNC_THRESHOLD
       | None \<Rightarrow> True))"

text \<open>The local position that the effect compares with the target, and the source the
  player has then: the comparison comes after the source was synchronised, and loading a
  source resets the position.\<close>

definition position_at_check :: "room \<Rightarrow> player \<Rightarrow> real" where
  "position_at_check r p =
     (if currentVideoUrl r \<noteq> [] \<and> src p \<noteq> currentVideoUrl r then 0 else player_currentTime p)"

definition source_at_check :: "browser \<Rightarrow> room \<Rightarrow> player \<Rightarrow> string" where
  "source_at_check env r p =
     (if currentVideoUrl r \<noteq> [] \<and> src p \<noteq> currentVideoUrl r
      then resolve_url env (currentVideoUrl r) else src p)"

text \<open>The two kinds of write that player events of user \<open>u\<close> produce: the patch of a
  \<^verbatim>\<open>play\<close> or \<^verbatim>\<open>pause\<close> event, and the patch of a completed seek.\<close>

definition is_play_pause_write :: "uid \<Rightarrow> store_write \<Rightarrow> bool" where
  "is_play_pause_write u w =
     (case w of
        UpdatePlayback q \<Rightarrow>
          u_isPlaying q \<noteq> None \<and> u_currentTime q \<noteq> None \<and> u_lastSeekTime q = None \<and>
          u_currentVideoUrl q = None \<and> u_hostId q = Some u
      | _ \<Rightarrow> False)"

definition is_seek_write :: "uid \<Rightarrow> store_write \<Rightarrow> bool" where
  "is_seek_write u w =
     (case w of
        UpdatePlayback q \<Rightarrow>
          u_isPlaying q \<noteq> None \<and> u_currentTime q \<noteq> None \<and> u_lastSeekTime q = u_currentTime q \<and>
          u_currentVideoUrl q = None \<and> u_hostId q = Some u
      | _ \<Rightarrow> False)"

section \<open>Example states\<close>

text \<open>A room that plays at 120 seconds with host \<open>u1\<close>, and the client of \<open>u1\<close>, converged
  with it.\<close>

definition example_room :: room where
  "example_room =
     \<lparr>room_id = ''abcd1234'', currentVideoUrl = ''https://x/y.mp4'', isPlaying = True,
      currentTime = Some 120, lastSeekTime = None, hostId = ''u1'', createdAt = 0,
      participants = [''u1'' \<mapsto> new_participant ''Ana'' 0, ''u2'' \<mapsto> new_participant ''Bia'' 1]\<rparr>"

definition example_player :: player where
  "example_player = \<lparr>src = ''https://x/y.mp4'', paused = False, player_currentTime = 120\<rparr>"

definition example_client :: client where
  "example_client =
     \<lparr>userId = ''u1'', roomData = Some example_room, video = Some example_player,
      isSeeking = False, error = NoError, videoUrlInput = [],
      lastFirestoreUpdateTime = 0, left = False\<rparr>"

text \<open>A browser that allows autoplay and returns every URL as it was assigned, with media
  of ten minutes; the same with media of one minute; and one that resolves the upper-case
  host of \<^verbatim>\<open>https://X/y.mp4\<close> to lower case.\<close>

definition example_browser :: browser where
  "example_browser =
     \<lparr>autoplay_allowed = True, resolve_url = (\<lambda>u. u), media_duration = (\<lambda>u. 600)\<rparr>"

definition short_media_browser :: browser where
  "short_media_browser = example_browser\<lparr>media_duration := (\<lambda>u. 60)\<rparr>"

definition resolving_browser :: browser where
  "resolving_browser =
     example_browser\<lparr>resolve_url :=
       (\<lambda>u. if u = ''https://X/y.mp4'' then ''https://x/y.mp4'' else u)\<rparr>"

text \<open>The doubles nearest to 0.1 and to 1.6.\<close>

definition double_0_1 :: real where
  "double_0_1 = 3602879701896397 / 2 ^ 55"

definition double_1_6 :: real where
  "double_1_6 = 3602879701896397 / 2 ^ 51"

text \<open>The same client with its player paused at the start of the video.\<close>

definition example_client_paused :: client where
  "example_client_paused =
     example_client\<lparr>video := Some \<lparr>src = ''https://x/y.mp4'', paused = True, player_currentTime = 0\<rparr>\<rparr>"

section \<open>Unfolding and evaluation lemmas\<close>

lemmas inbound_defs =
  onRemoteRoomUpdate_def apply_record_def onSnapshot_def render_def sync_effect_def sync_source_def
  sync_playing_def sync_position_def targetTime_def SYNC_THRESHOLD_def
  element_load_def element_play_def element_pause_def element_set_currentTime_def

lemmas write_kind_defs = is_play_pause_write_def is_seek_write_def

lemmas handler_defs =
  handle_event_def dispatch_def onPlay_def onPause_def onSeeking_def onSeeked_def
  onTimeUpdate_def handlePlayerAction_def empty_patch_def

lemmas example_defs =
  example_room_def example_player_def example_client_def example_client_paused_def
  example_browser_def

lemma fuel_three: "(3::nat) = Suc (Suc (Suc 0))"
  by simp

lemma trim_blank: "trim '' '' = []"
  by (simp add: trim_def is_ws_def)

lemma trim_example_url: "trim ''https://x/y.mp4'' = ''https://x/y.mp4''"
  by (simp add: trim_def is_ws_def)

section \<open>Guard of the action handler\<close>

text \<open>
  Claim C10. A player action (play, pause, seek, video change) handled before the room
  document has been received, or while no video element is attached, does nothing: no
  write is issued, no message is set, and the component state is unchanged.
\<close>

theorem handlePlayerAction_guard_noop:
  "roomData c = None \<or> video c = None \<Longrightarrow> handlePlayerAction c a = (c, [])"
  by (auto simp: handlePlayerAction_def split: option.splits)

theorem handlePlayerAction_guard_noop_witness:
  "roomData (example_client\<lparr>roomData := None\<rparr>) = None \<and>
   handlePlayerAction (example_client\<lparr>roomData := None\<rparr>) (CHANGE_VIDEO ''https://x/y.mp4'')
     = (example_client\<lparr>roomData := None\<rparr>, [])"
  using handlePlayerAction_guard_noop
    [of "example_client\<lparr>roomData := None\<rparr>" "CHANGE_VIDEO ''https://x/y.mp4''"]
  by simp

section \<open>Video change\<close>

text \<open>
  Claim C5, as the claim states it, fails: a URL of one space is not empty, and the
  handler rejects it like an empty one, with the validation message and without a write.
\<close>

theorem change_video_blank_no_write:
  "'' '' \<noteq> [] \<and>
   handlePlayerAction example_client (CHANGE_VIDEO '' '') =
     (example_client\<lparr>error := EmptyVideoUrl\<rparr>, [])"
  by (simp add: handlePlayerAction_def example_defs trim_blank)

text \<open>
  Claim C5, amended. On a client that has received the room document and has a video
  element, a video change to a URL that is not empty after trimming white space issues
  exactly one write, the patch of the new URL with \<^verbatim>\<open>isPlaying\<close> false, \<^verbatim>\<open>currentTime\<close> and
  \<^verbatim>\<open>lastSeekTime\<close> zero and the acting user as host; merged into any room document, it
  yields these five fields and leaves the others as they were.
\<close>

theorem change_video_patch:
  assumes "roomData c = Some r" and "video c = Some p" and "trim u \<noteq> []"
  shows "handlePlayerAction c (CHANGE_VIDEO u) =
           (c\<lparr>videoUrlInput := []\<rparr>,
            [UpdatePlayback \<lparr>u_currentVideoUrl = Some u, u_isPlaying = Some False,
               u_currentTime = Some 0, u_lastSeekTime = Some 0, u_hostId = Some (userId c)\<rparr>]) \<and>
         apply_writes ts (snd (handlePlayerAction c (CHANGE_VIDEO u))) (Some d) =
           Some (d\<lparr>currentVideoUrl := u, isPlaying := False, currentTime := Some 0,
                   lastSeekTime := Some 0, hostId := userId c\<rparr>)"
  using assms
  by (simp add: handlePlayerAction_def apply_writes_def apply_write_def apply_patch_def)

theorem change_video_patch_witness:
  "roomData example_client = Some example_room \<and>
   video example_client = Some example_player \<and>
   trim ''https://x/y.mp4'' \<noteq> [] \<and>
   currentTime example_room = Some 120 \<and> isPlaying example_room \<and>
   apply_writes 7 (snd (handlePlayerAction example_client (CHANGE_VIDEO ''https://x/y.mp4'')))
       (Some example_room) =
     Some (example_room\<lparr>currentVideoUrl := ''https://x/y.mp4'', isPlaying := False,
             currentTime := Some 0, lastSeekTime := Some 0, hostId := ''u1''\<rparr>)"
proof -
  have r: "roomData example_client = Some example_room"
    and p: "video example_client = Some example_player"
    by (simp_all add: example_client_def)
  have u: "trim ''https://x/y.mp4'' \<noteq> []"
    by (simp add: trim_example_url)
  have id: "userId example_client = ''u1''"
    by (simp add: example_client_def)
  note t = change_video_patch [OF r p u, of 7 example_room]
  show ?thesis
    using r p u conjunct1 [OF t] conjunct2 [OF t]
    by (simp add: id) (simp add: example_room_def)
qed

text \<open>
  Claim C6. On a client that has received the room document and has a video element, a
  video-change action whose URL is empty or consists of white space only is rejected: the
  validation message is shown, no write is issued, and so the room document stays as it
  is.
\<close>

theorem change_video_empty_rejected:
  assumes "roomData c = Some r" and "video c = Some p" and "trim u = []"
  shows "handlePlayerAction c (CHANGE_VIDEO u) = (c\<lparr>error := EmptyVideoUrl\<rparr>, []) \<and>
         apply_writes ts (snd (handlePlayerAction c (CHANGE_VIDEO u))) d = d"
  using assms by (simp add: handlePlayerAction_def apply_writes_def)

theorem change_video_empty_rejected_witness:
  "roomData example_client = Some example_room \<and>
   video example_client = Some example_player \<and>
   trim [] = [] \<and>
   handlePlayerAction example_client (CHANGE_VIDEO []) =
     (example_client\<lparr>error := EmptyVideoUrl\<rparr>, []) \<and>
   apply_writes 7 (snd (handlePlayerAction example_client (CHANGE_VIDEO []))) (Some example_room) =
     Some example_room"
proof -
  have r: "roomData example_client = Some example_room"
    and p: "video example_client = Some example_player"
    by (simp_all add: example_client_def)
  have u: "trim [] = []"
    by (simp add: trim_def)
  note t = change_video_empty_rejected [OF r p u, of 7 "Some example_room"]
  show ?thesis
    using r p u conjunct1 [OF t] conjunct2 [OF t]
    by simp
qed

text \<open>The button handler drops an empty input before the action handler is reached:
  nothing is written and nothing is shown.\<close>

lemma handleVideoUrlChange_empty_input:
  "videoUrlInput c = [] \<Longrightarrow> handleVideoUrlChange c = (c, [])"
  by (simp add: handleVideoUrlChange_def)

section \<open>Seek completion\<close>

text \<open>
  Claim C7. On a client that has received the room document and has a video element, a
  seek action at position \<open>t\<close> issues exactly the patch with \<^verbatim>\<open>currentTime\<close> and
  \<^verbatim>\<open>lastSeekTime\<close> equal to \<open>t\<close>, \<^verbatim>\<open>isPlaying\<close> the negation of the player's paused flag, and
  the acting user as host. The \<^verbatim>\<open>seeked\<close> event that ends a seek (the flag set by the
  \<^verbatim>\<open>seeking\<close> event is still up when the handler starts) issues this patch for the player's
  position and takes the flag down.
\<close>

theorem seek_completion_patch:
  assumes "roomData c = Some r" and "video c = Some p"
  shows "snd (handlePlayerAction c (SEEK t)) =
           [UpdatePlayback \<lparr>u_currentVideoUrl = None, u_isPlaying = Some (\<not> paused p),
              u_currentTime = Some t, u_lastSeekTime = Some t, u_hostId = Some (userId c)\<rparr>] \<and>
         (isSeeking c \<longrightarrow>
            onSeeked c =
              (c\<lparr>isSeeking := False\<rparr>,
               [UpdatePlayback \<lparr>u_currentVideoUrl = None, u_isPlaying = Some (\<not> paused p),
                  u_currentTime = Some (player_currentTime p),
                  u_lastSeekTime = Some (player_currentTime p), u_hostId = Some (userId c)\<rparr>]))"
  using assms by (simp add: handlePlayerAction_def onSeeked_def empty_patch_def)

theorem seek_completion_patch_witness:
  "roomData (example_client\<lparr>isSeeking := True\<rparr>) = Some example_room \<and>
   video (example_client\<lparr>isSeeking := True\<rparr>) = Some example_player \<and>
   isSeeking (example_client\<lparr>isSeeking := True\<rparr>) \<and>
   onSeeked (example_client\<lparr>isSeeking := True\<rparr>) =
     (example_client,
      [UpdatePlayback \<lparr>u_currentVideoUrl = None, u_isPlaying = Some True,
         u_currentTime = Some 120, u_lastSeekTime = Some 120, u_hostId = Some ''u1''\<rparr>])"
proof -
  let ?c = "example_client\<lparr>isSeeking := True\<rparr>"
  have r: "roomData ?c = Some example_room" and p: "video ?c = Some example_player"
    by (simp_all add: example_client_def)
  have s: "isSeeking ?c"
    by simp
  have restored: "?c\<lparr>isSeeking := False\<rparr> = example_client"
    by (simp add: example_client_def)
  have pl: "paused example_player = False" "player_currentTime example_player = 120"
    by (simp_all add: example_player_def)
  have id: "userId ?c = ''u1''"
    by (simp add: example_client_def)
  note t = seek_completion_patch [OF r p, of 0]
  show ?thesis
    using r p s mp [OF conjunct2 [OF t] s]
    by (simp add: restored pl id)
qed

section \<open>Rounding\<close>

lemma round_half_even_bounds: "\<lfloor>y\<rfloor> \<le> round_half_even y \<and> round_half_even y \<le> \<lceil>y\<rceil>"
  unfolding round_half_even_def Let_def
  by (auto simp: ceiling_altdef)

lemma round_half_even_abs:
  assumes "\<bar>y\<bar> \<le> of_int N"
  shows "\<bar>round_half_even y\<bar> \<le> N"
proof -
  have "- N \<le> \<lfloor>y\<rfloor>"
    using assms by (simp add: le_floor_iff abs_le_iff)
  moreover have "\<lceil>y\<rceil> \<le> N"
    using assms by (simp add: ceiling_le_iff abs_le_iff)
  ultimately show ?thesis
    using round_half_even_bounds [of y] by linarith
qed

text \<open>The threshold is a double, and rounding never carries a difference across it from
  below: a difference of at most 1.5 is at most 1.5 after rounding.\<close>

lemma round_double_threshold:
  assumes "\<bar>x\<bar> \<le> 3 / 2"
  shows "\<bar>round_double x\<bar> \<le> 3 / 2"
proof (cases "x = 0")
  case True
  then show ?thesis
    by (simp add: round_double_def)
next
  case False
  define e where "e = max \<lfloor>log 2 \<bar>x\<bar>\<rfloor> (- 1022)"
  define n where "n = nat (51 - e)"
  have "log 2 \<bar>x\<bar> < 1"
    using False assms by simp
  then have "\<lfloor>log 2 \<bar>x\<bar>\<rfloor> \<le> 0"
    by (simp add: floor_le_iff)
  then have e: "e \<le> 0"
    by (simp add: e_def)
  then have "nat (52 - e) = Suc n"
    by (simp add: n_def)
  with e have ulp: "power_int (2::real) (e - 52) = 1 / (2 * 2 ^ n)"
    by (simp add: power_int_def power_inverse field_simps)
  let ?k = "round_half_even (x / (1 / (2 * 2 ^ n)))"
  have "\<bar>x / (1 / (2 * 2 ^ n))\<bar> \<le> of_int (3 * 2 ^ n)"
    using assms by (simp add: abs_mult field_simps)
  then have "\<bar>?k\<bar> \<le> 3 * 2 ^ n"
    by (rule round_half_even_abs)
  then have "real_of_int \<bar>?k\<bar> \<le> real_of_int (3 * 2 ^ n)"
    by (simp only: of_int_le_iff)
  then have "\<bar>real_of_int ?k\<bar> \<le> 3 * 2 ^ n"
    by simp
  then have "\<bar>real_of_int ?k * (1 / (2 * 2 ^ n))\<bar> \<le> 3 / 2"
    by (simp add: abs_mult field_simps)
  then show ?thesis
    using False by (simp add: round_double_def e_def [symmetric] ulp Let_def)
qed

lemma double_minus_threshold: "\<bar>a - b\<bar> \<le> 3 / 2 \<Longrightarrow> \<bar>double_minus a b\<bar> \<le> 3 / 2"
  unfolding double_minus_def by (rule round_double_threshold)

lemma double_minus_self: "double_minus a a = 0"
  by (simp add: double_minus_def round_double_def)

text \<open>The exact difference of the doubles nearest to 0.1 and 1.6 is \<open>3 / 2 + 3 / 2 ^ 55\<close>;
  the doubles next to it are \<open>3 / 2\<close> and \<open>3 / 2 + 1 / 2 ^ 52\<close>, and \<open>3 / 2\<close> is the
  nearer.\<close>

lemma double_minus_near_threshold: "double_minus double_0_1 double_1_6 = - (3 / 2)"
proof -
  have x: "double_0_1 - double_1_6 = - (54043195528445955 / 2 ^ 55)"
    by (simp add: double_0_1_def double_1_6_def)
  have "\<lfloor>log 2 \<bar>- (54043195528445955 / 2 ^ 55 :: real)\<bar>\<rfloor> = 0"
    by (simp add: floor_eq_iff)
  then show ?thesis
    by (simp add: double_minus_def x round_double_def Let_def round_half_even_def)
qed

lemma double_minus_0_120: "double_minus 0 120 = - 120"
proof -
  have "\<lfloor>log 2 \<bar>- 120 :: real\<bar>\<rfloor> = 6"
    by (simp add: floor_log_eq_powr_iff)
  then show ?thesis
    by (simp add: double_minus_def round_double_def Let_def round_half_even_def)
qed

lemma double_minus_120_130: "double_minus 120 130 = - 10"
proof -
  have "\<lfloor>log 2 \<bar>- 10 :: real\<bar>\<rfloor> = 3"
    by (simp add: floor_log_eq_powr_iff)
  then show ?thesis
    by (simp add: double_minus_def round_double_def Let_def round_half_even_def)
qed

lemma double_minus_60_120: "double_minus 60 120 = - 60"
proof -
  have "\<lfloor>log 2 \<bar>- 60 :: real\<bar>\<rfloor> = 5"
    by (simp add: floor_log_eq_powr_iff)
  then show ?thesis
    by (simp add: double_minus_def round_double_def Let_def round_half_even_def)
qed

lemma seek_landing_within:
  "0 \<le> t \<Longrightarrow> t \<le> media_duration env s \<Longrightarrow> seek_landing env s t = t"
  by (simp add: seek_landing_def)

section \<open>Position reconciliation\<close>

lemma sync_source_position:
  "player_currentTime (fst (sync_source env r p)) = position_at_check r p"
  by (simp add: sync_source_def element_load_def position_at_check_def)

lemma sync_source_src:
  "src (fst (sync_source env r p)) = source_at_check env r p"
  by (simp add: sync_source_def element_load_def source_at_check_def)

lemma sync_playing_position:
  "player_currentTime (fst (sync_playing env r p)) = player_currentTime p"
  by (simp add: sync_playing_def element_play_def element_pause_def)

lemma sync_playing_src:
  "src (fst (sync_playing env r p)) = src p"
  by (simp add: sync_playing_def element_play_def element_pause_def)

lemma sync_source_commands:
  "SetCurrentTime t \<notin> set (fst (snd (sync_source env r p)))"
  by (simp add: sync_source_def element_load_def)

lemma sync_playing_commands:
  "SetCurrentTime t \<notin> set (fst (snd (sync_playing env r p)))"
  by (simp add: sync_playing_def element_play_def element_pause_def)

lemma sync_position_commands:
  "fst (snd (sync_position env seeking r p)) =
     (case targetTime r of
        Some t \<Rightarrow> if SYNC_THRESHOLD < \<bar>double_minus (player_currentTime p) t\<bar> \<and> \<not> seeking
                  then [SetCurrentTime t] else []
      | None \<Rightarrow> [])"
  by (simp add: sync_position_def element_set_currentTime_def split: option.splits)

lemma sync_position_player:
  "player_currentTime (fst (sync_position env seeking r p)) =
     (case targetTime r of
        Some t \<Rightarrow> if SYNC_THRESHOLD < \<bar>double_minus (player_currentTime p) t\<bar> \<and> \<not> seeking
                  then seek_landing env (src p) t else player_currentTime p
      | None \<Rightarrow> player_currentTime p)"
  by (simp add: sync_position_def element_set_currentTime_def split: option.splits)

lemma sync_effect_commands:
  assumes "video c = Some p" and "roomData c = Some r"
  shows "fst (snd (sync_effect env c)) =
           fst (snd (sync_source env r p)) @
           fst (snd (sync_playing env r (fst (sync_source env r p)))) @
           fst (snd (sync_position env (isSeeking c) r
                  (fst (sync_playing env r (fst (sync_source env r p))))))"
  using assms by (simp add: sync_effect_def split_beta Let_def)

lemma sync_effect_player:
  assumes "video c = Some p" and "roomData c = Some r"
  shows "video (fst (sync_effect env c)) =
           Some (fst (sync_position env (isSeeking c) r
                  (fst (sync_playing env r (fst (sync_source env r p))))))"
  using assms by (simp add: sync_effect_def split_beta Let_def)

text \<open>
  Claim C2, as the claim states it, fails: the code compares the difference that the
  double subtraction returns, not the exact one. A player at the double nearest to 0.1 and
  a target at the double nearest to 1.6 differ by more than 1.5, the client is not
  seeking, and yet the effect gives the player no command: the subtraction returns
  exactly 1.5.
\<close>

theorem exact_difference_not_forced:
  "\<bar>double_0_1 - double_1_6\<bar> > 3 / 2 \<and>
   fst (snd (sync_effect example_browser
     (example_client\<lparr>roomData := Some (example_room\<lparr>currentTime := Some double_1_6\<rparr>),
        video := Some (example_player\<lparr>player_currentTime := double_0_1\<rparr>)\<rparr>))) = []"
proof -
  have "\<bar>double_0_1 - double_1_6\<bar> > 3 / 2"
    by (simp add: double_0_1_def double_1_6_def)
  then show ?thesis
    by (simp add: sync_effect_def sync_source_def sync_playing_def sync_position_def
          targetTime_def SYNC_THRESHOLD_def double_minus_near_threshold
          example_room_def example_player_def example_client_def)
qed

text \<open>
  Claim C2, amended. The target of the reconciliation is \<^verbatim>\<open>lastSeekTime\<close> when the record has
  one and \<^verbatim>\<open>currentTime\<close> otherwise. The effect assigns the target \<open>t\<close> to the player's position
  if and only if the difference of the local position and \<open>t\<close>, as the double subtraction
  computes it, is strictly greater than 1.5 in absolute value and the client is not
  seeking. So the position is only forced when the exact difference exceeds 1.5, and at
  an exact difference of 1.5 no position is set. The seek lands on the target clamped to
  the medium. The local position is the one the comparison reads (\<open>position_at_check\<close>).
\<close>

theorem position_forced_iff:
  assumes "video c = Some p" and "roomData c = Some r"
  shows "targetTime r = (case lastSeekTime r of Some s \<Rightarrow> Some s | None \<Rightarrow> currentTime r) \<and>
         (SetCurrentTime t \<in> set (fst (snd (sync_effect env c))) \<longleftrightarrow>
            targetTime r = Some t \<and> \<bar>double_minus (position_at_check r p) t\<bar> > 3 / 2 \<and>
            \<not> isSeeking c) \<and>
         (SetCurrentTime t \<in> set (fst (snd (sync_effect env c))) \<longrightarrow>
            \<bar>position_at_check r p - t\<bar> > 3 / 2 \<and>
            map_option player_currentTime (video (fst (sync_effect env c))) =
              Some (seek_landing env (source_at_check env r p) t)) \<and>
         (targetTime r = Some t \<and> \<bar>position_at_check r p - t\<bar> = 3 / 2 \<longrightarrow>
            (\<forall>t'. SetCurrentTime t' \<notin> set (fst (snd (sync_effect env c)))))"
proof -
  let ?p2 = "fst (sync_playing env r (fst (sync_source env r p)))"
  have pos: "player_currentTime ?p2 = position_at_check r p"
    by (simp add: sync_playing_position sync_source_position)
  have source: "src ?p2 = source_at_check env r p"
    by (simp add: sync_playing_src sync_source_src)
  have cmds: "SetCurrentTime x \<in> set (fst (snd (sync_effect env c))) \<longleftrightarrow>
      SetCurrentTime x \<in> set (fst (snd (sync_position env (isSeeking c) r ?p2)))" for x
    using assms sync_source_commands sync_playing_commands
    by (simp add: sync_effect_commands)
  have dec: "SetCurrentTime x \<in> set (fst (snd (sync_position env (isSeeking c) r ?p2))) \<longleftrightarrow>
      targetTime r = Some x \<and> \<bar>double_minus (position_at_check r p) x\<bar> > 3 / 2 \<and>
      \<not> isSeeking c" for x
    by (auto simp: sync_position_commands pos SYNC_THRESHOLD_def split: option.splits)
  have target: "targetTime r = (case lastSeekTime r of Some s \<Rightarrow> Some s | None \<Rightarrow> currentTime r)"
    by (simp add: targetTime_def)
  have iff: "SetCurrentTime x \<in> set (fst (snd (sync_effect env c))) \<longleftrightarrow>
      targetTime r = Some x \<and> \<bar>double_minus (position_at_check r p) x\<bar> > 3 / 2 \<and>
      \<not> isSeeking c" for x
    using cmds dec by simp
  have exact: "\<bar>position_at_check r p - x\<bar> > 3 / 2"
    if "SetCurrentTime x \<in> set (fst (snd (sync_effect env c)))" for x
  proof (rule ccontr)
    assume "\<not> \<bar>position_at_check r p - x\<bar> > 3 / 2"
    then have "\<bar>position_at_check r p - x\<bar> \<le> 3 / 2"
      by linarith
    then have "\<bar>double_minus (position_at_check r p) x\<bar> \<le> 3 / 2"
      by (rule double_minus_threshold)
    moreover from that iff have "\<bar>double_minus (position_at_check r p) x\<bar> > 3 / 2"
      by blast
    ultimately show False
      by linarith
  qed
  have landed: "map_option player_currentTime (video (fst (sync_effect env c))) =
      Some (seek_landing env (source_at_check env r p) t)"
    if "SetCurrentTime t \<in> set (fst (snd (sync_effect env c)))"
  proof -
    from that iff have "targetTime r = Some t"
      and "\<bar>double_minus (position_at_check r p) t\<bar> > 3 / 2" and "\<not> isSeeking c"
      by simp_all
    then show ?thesis
      using assms
      by (simp add: sync_effect_player sync_position_player pos source SYNC_THRESHOLD_def)
  qed
  have tie: "SetCurrentTime t' \<notin> set (fst (snd (sync_effect env c)))"
    if "\<bar>position_at_check r p - t\<bar> = 3 / 2" and "targetTime r = Some t" for t'
  proof
    assume forced: "SetCurrentTime t' \<in> set (fst (snd (sync_effect env c)))"
    with iff that(2) have "t' = t"
      by simp
    with exact [OF forced] that(1) show False
      by simp
  qed
  show ?thesis
    using target iff exact landed tie by blast
qed

theorem position_forced_iff_witness:
  "video example_client = Some example_player \<and>
   roomData example_client = Some example_room \<and>
   targetTime (example_room\<lparr>currentTime := Some (243 / 2)\<rparr>) = Some (243 / 2) \<and>
   \<bar>position_at_check (example_room\<lparr>currentTime := Some (243 / 2)\<rparr>) example_player - 243 / 2\<bar> = 3 / 2 \<and>
   SetCurrentTime (243 / 2) \<notin>
     set (fst (snd (sync_effect example_browser
       (example_client\<lparr>roomData := Some (example_room\<lparr>currentTime := Some (243 / 2)\<rparr>)\<rparr>)))) \<and>
   targetTime (example_room\<lparr>lastSeekTime := Some 130\<rparr>) = Some 130 \<and>
   \<bar>double_minus (position_at_check (example_room\<lparr>lastSeekTime := Some 130\<rparr>) example_player) 130\<bar>
     > 3 / 2 \<and>
   SetCurrentTime 130 \<in>
     set (fst (snd (sync_effect example_browser
       (example_client\<lparr>roomData := Some (example_room\<lparr>lastSeekTime := Some 130\<rparr>)\<rparr>)))) \<and>
   map_option player_currentTime (video (fst (sync_effect example_browser
       (example_client\<lparr>roomData := Some (example_room\<lparr>lastSeekTime := Some 130\<rparr>)\<rparr>)))) = Some 130"
proof -
  let ?r = "example_room\<lparr>currentTime := Some (243 / 2)\<rparr>"
  let ?c = "example_client\<lparr>roomData := Some ?r\<rparr>"
  let ?r' = "example_room\<lparr>lastSeekTime := Some 130\<rparr>"
  let ?c' = "example_client\<lparr>roomData := Some ?r'\<rparr>"
  have p: "video ?c = Some example_player" and r: "roomData ?c = Some ?r"
    and p': "video ?c' = Some example_player" and r': "roomData ?c' = Some ?r'"
    by (simp_all add: example_client_def)
  have target: "targetTime ?r = Some (243 / 2)" and target': "targetTime ?r' = Some 130"
    by (simp_all add: targetTime_def example_room_def)
  have tie: "\<bar>position_at_check ?r example_player - 243 / 2\<bar> = 3 / 2"
    by (simp add: position_at_check_def example_room_def example_player_def)
  have far: "\<bar>double_minus (position_at_check ?r' example_player) 130\<bar> > 3 / 2"
    by (simp add: position_at_check_def example_room_def example_player_def double_minus_120_130)
  have free: "\<not> isSeeking ?c'"
    by (simp add: example_client_def)
  have landing: "seek_landing example_browser (source_at_check example_browser ?r' example_player) 130
      = 130"
    by (simp add: seek_landing_def example_browser_def)
  note t = position_forced_iff [OF p r, of "243 / 2" example_browser]
  note t' = position_forced_iff [OF p' r', of 130 example_browser]
  have none: "SetCurrentTime (243 / 2) \<notin> set (fst (snd (sync_effect example_browser ?c)))"
    using t target tie by blast
  have some: "SetCurrentTime 130 \<in> set (fst (snd (sync_effect example_browser ?c')))"
    using t' target' far free by blast
  have moved: "map_option player_currentTime (video (fst (sync_effect example_browser ?c')))
      = Some 130"
    using t' some landing by simp
  show ?thesis
    using target tie none target' far some moved by (simp add: example_client_def)
qed

section \<open>Echo idempotence\<close>

text \<open>When the record's URL is the one that \<^verbatim>\<open>src\<close> reads back, applying the record to a
  converged client issues no player command, fires no event and sends no write, also a
  second time.\<close>

lemma converged_canonical_no_commands:
  assumes "video c = Some p" and "converged env r p"
    and "resolve_url env (currentVideoUrl r) = currentVideoUrl r"
  shows "apply_record env r c = (c\<lparr>roomData := Some r\<rparr>, [], []) \<and>
         apply_record env r (fst (apply_record env r c)) = (c\<lparr>roomData := Some r\<rparr>, [], []) \<and>
         onRemoteRoomUpdate fuel env r c = Some (c\<lparr>roomData := Some r\<rparr>, [], [])"
proof -
  have same: "src p = currentVideoUrl r"
    using assms(2,3) by (simp add: converged_def)
  have source: "sync_source env r p = (p, [], [])"
    using same by (simp add: sync_source_def)
  have playing: "sync_playing env r p = (p, [], [])"
    using assms(2) by (simp add: sync_playing_def converged_def)
  have position: "sync_position env s r p = (p, [], [])" for s
  proof (cases "targetTime r")
    case None
    then show ?thesis
      by (simp add: sync_position_def)
  next
    case (Some t)
    with assms(2) have "\<bar>player_currentTime p - t\<bar> \<le> 3 / 2"
      by (simp add: converged_def SYNC_THRESHOLD_def)
    then have "\<bar>double_minus (player_currentTime p) t\<bar> \<le> 3 / 2"
      by (rule double_minus_threshold)
    then have "\<not> SYNC_THRESHOLD < \<bar>double_minus (player_currentTime p) t\<bar>"
      by (simp add: SYNC_THRESHOLD_def)
    with Some show ?thesis
      by (simp add: sync_position_def)
  qed
  have snapshot: "onSnapshot env (Some r) c = (c\<lparr>roomData := Some r\<rparr>, [], [])"
    using assms(1) same by (simp add: onSnapshot_def)
  have rendered: "render (c\<lparr>roomData := Some r\<rparr>) = c\<lparr>roomData := Some r\<rparr>"
    using assms(1) by (simp add: render_def)
  have effect: "sync_effect env (c\<lparr>roomData := Some r\<rparr>) = (c\<lparr>roomData := Some r\<rparr>, [], [])"
    using assms(1) by (simp add: sync_effect_def source playing position)
  have once: "apply_record env r c = (c\<lparr>roomData := Some r\<rparr>, [], [])"
    by (simp add: apply_record_def snapshot rendered effect)
  have snapshot2: "onSnapshot env (Some r) (c\<lparr>roomData := Some r\<rparr>) = (c\<lparr>roomData := Some r\<rparr>, [], [])"
    using assms(1) same by (simp add: onSnapshot_def)
  have twice: "apply_record env r (c\<lparr>roomData := Some r\<rparr>) = (c\<lparr>roomData := Some r\<rparr>, [], [])"
    by (simp add: apply_record_def snapshot2 rendered effect)
  show ?thesis
    by (simp add: once twice onRemoteRoomUpdate_def)
qed

text \<open>
  Claim C8 asks that a record applied to a client that is converged with it issues no
  player command. The code compares \<^verbatim>\<open>player.src\<close>, which reads as the resolved URL, with
  the URL as the record has it. For the record URL \<^verbatim>\<open>https://X/y.mp4\<close> the two differ for
  ever: a client that has this very source loaded, plays and is at the target is told, on
  every application of the record, to load the source twice, to play and to jump.
\<close>

theorem resolved_source_reloads:
  "converged resolving_browser (example_room\<lparr>currentVideoUrl := ''https://X/y.mp4''\<rparr>)
     example_player \<and>
   video example_client = Some example_player \<and>
   fst (snd (apply_record resolving_browser
     (example_room\<lparr>currentVideoUrl := ''https://X/y.mp4''\<rparr>) example_client)) =
     [LoadSrc ''https://X/y.mp4'', LoadSrc ''https://X/y.mp4'', CallPlay, SetCurrentTime 120] \<and>
   fst (snd (apply_record resolving_browser
     (example_room\<lparr>currentVideoUrl := ''https://X/y.mp4''\<rparr>)
     (fst (apply_record resolving_browser
       (example_room\<lparr>currentVideoUrl := ''https://X/y.mp4''\<rparr>) example_client)))) =
     [LoadSrc ''https://X/y.mp4'', LoadSrc ''https://X/y.mp4'', CallPlay, SetCurrentTime 120]"
  by (simp add: converged_def resolving_browser_def example_defs apply_record_def onSnapshot_def
        render_def sync_effect_def sync_source_def sync_playing_def sync_position_def
        targetTime_def SYNC_THRESHOLD_def element_load_def element_play_def
        element_set_currentTime_def seek_landing_def double_minus_0_120)

section \<open>Periodic correction by the host\<close>

text \<open>A periodic write is issued only by a client whose id is the record's \<^verbatim>\<open>hostId\<close>,
  whose player is playing, which is not seeking, and whose reference time lies more than
  5000 ms back; it carries \<^verbatim>\<open>currentTime\<close> only.\<close>

lemma onTimeUpdate_gate:
  assumes "w \<in> set (snd (onTimeUpdate now c))"
  shows "\<exists>p r. video c = Some p \<and> roomData c = Some r \<and> hostId r = userId c \<and>
           \<not> paused p \<and> \<not> isSeeking c \<and> 5000 < now - lastFirestoreUpdateTime c \<and>
           w = UpdatePlayback (empty_patch\<lparr>u_currentTime := Some (player_currentTime p)\<rparr>)"
  using assms by (auto simp: onTimeUpdate_def split: option.splits if_splits)

lemma onTimeUpdate_not_host:
  "roomData c = Some r \<Longrightarrow> hostId r \<noteq> userId c \<Longrightarrow> onTimeUpdate now c = (c, [])"
  by (simp add: onTimeUpdate_def split: option.splits)

text \<open>Once the store has acknowledged a periodic write issued at \<open>now\<close>, no further one is
  issued until more than 5000 ms after \<open>now\<close>.\<close>

lemma onTimeUpdate_after_ack:
  "now' - now \<le> 5000 \<Longrightarrow> onTimeUpdate now' (periodic_write_done now True c) =
     (periodic_write_done now True c, [])"
  by (simp add: onTimeUpdate_def periodic_write_done_def split: option.splits)

text \<open>
  Claim C3 asks that two periodic writes of one client are never less than 5 seconds
  apart. The reference time is only set when the store acknowledges the write, so until
  then every \<^verbatim>\<open>timeupdate\<close> event of the playing host issues another write: here two
  events 250 ms apart, the first write still unacknowledged, issue two writes.
\<close>

theorem periodic_writes_250ms_apart:
  "onTimeUpdate 1700000006000 example_client =
     (example_client,
      [UpdatePlayback \<lparr>u_currentVideoUrl = None, u_isPlaying = None,
         u_currentTime = Some 120, u_lastSeekTime = None, u_hostId = None\<rparr>]) \<and>
   snd (onTimeUpdate 1700000006250
          (example_client\<lparr>video := Some (example_player\<lparr>player_currentTime := 481 / 4\<rparr>)\<rparr>)) =
     [UpdatePlayback \<lparr>u_currentVideoUrl = None, u_isPlaying = None,
        u_currentTime = Some (481 / 4), u_lastSeekTime = None, u_hostId = None\<rparr>]"
  by (simp add: onTimeUpdate_def empty_patch_def example_defs)

section \<open>Writes while seeking\<close>

text \<open>
  Claim C4, as the claim states it, fails: the handlers of \<^verbatim>\<open>play\<close> and \<^verbatim>\<open>pause\<close> do not
  look at the seeking flag. A \<^verbatim>\<open>play\<close> event that reaches a client whose flag is set
  issues a write.
\<close>

theorem play_while_seeking_writes:
  "isSeeking (example_client\<lparr>isSeeking := True\<rparr>) \<and>
   dispatch (example_client\<lparr>isSeeking := True\<rparr>) Play =
     (example_client\<lparr>isSeeking := True\<rparr>,
      [UpdatePlayback \<lparr>u_currentVideoUrl = None, u_isPlaying = Some True,
         u_currentTime = Some 120, u_lastSeekTime = None, u_hostId = Some ''u1''\<rparr>])"
  by (simp add: dispatch_def onPlay_def handlePlayerAction_def empty_patch_def example_defs)

text \<open>
  Claim C4, amended. While the seeking flag is set, a \<^verbatim>\<open>timeupdate\<close> event and a further
  \<^verbatim>\<open>seeking\<close> event issue no write, and the inbound effect does not set the position. On a
  client with room record and player, the \<^verbatim>\<open>seeked\<close> event that completes the seek issues
  exactly one write, the seek patch, and clears the flag; a \<^verbatim>\<open>play\<close> or \<^verbatim>\<open>pause\<close> event
  during the seek still issues its write.
\<close>

theorem seeking_suppression:
  assumes "isSeeking c"
  shows "snd (onTimeUpdate now c) = [] \<and>
         snd (dispatch c Seeking) = [] \<and>
         SetCurrentTime t \<notin> set (fst (snd (sync_effect env c))) \<and>
         (roomData c = Some r \<and> video c = Some p \<longrightarrow>
            onSeeked c =
              (c\<lparr>isSeeking := False\<rparr>,
               [UpdatePlayback \<lparr>u_currentVideoUrl = None, u_isPlaying = Some (\<not> paused p),
                  u_currentTime = Some (player_currentTime p),
                  u_lastSeekTime = Some (player_currentTime p), u_hostId = Some (userId c)\<rparr>]) \<and>
            snd (onPlay c) =
              [UpdatePlayback \<lparr>u_currentVideoUrl = None, u_isPlaying = Some True,
                 u_currentTime = Some (player_currentTime p), u_lastSeekTime = None,
                 u_hostId = Some (userId c)\<rparr>] \<and>
            snd (onPause c) =
              [UpdatePlayback \<lparr>u_currentVideoUrl = None, u_isPlaying = Some False,
                 u_currentTime = Some (player_currentTime p), u_lastSeekTime = None,
                 u_hostId = Some (userId c)\<rparr>])"
proof -
  have periodic: "snd (onTimeUpdate now c) = []"
    using assms by (simp add: onTimeUpdate_def split: option.splits)
  have seeking: "snd (dispatch c Seeking) = []"
    by (simp add: dispatch_def)
  have position: "SetCurrentTime t \<notin> set (fst (snd (sync_effect env c)))"
  proof (cases "\<exists>p r. video c = Some p \<and> roomData c = Some r")
    case True
    then obtain p r where "video c = Some p" and "roomData c = Some r"
      by blast
    then show ?thesis
      using assms sync_source_commands sync_playing_commands
      by (simp add: sync_effect_commands sync_position_commands split: option.splits)
  next
    case False
    then show ?thesis
      by (auto simp: sync_effect_def split: option.splits)
  qed
  have handlers: "onSeeked c =
              (c\<lparr>isSeeking := False\<rparr>,
               [UpdatePlayback \<lparr>u_currentVideoUrl = None, u_isPlaying = Some (\<not> paused p),
                  u_currentTime = Some (player_currentTime p),
                  u_lastSeekTime = Some (player_currentTime p), u_hostId = Some (userId c)\<rparr>]) \<and>
            snd (onPlay c) =
              [UpdatePlayback \<lparr>u_currentVideoUrl = None, u_isPlaying = Some True,
                 u_currentTime = Some (player_currentTime p), u_lastSeekTime = None,
                 u_hostId = Some (userId c)\<rparr>] \<and>
            snd (onPause c) =
              [UpdatePlayback \<lparr>u_currentVideoUrl = None, u_isPlaying = Some False,
                 u_currentTime = Some (player_currentTime p), u_lastSeekTime = None,
                 u_hostId = Some (userId c)\<rparr>]"
    if "roomData c = Some r" and "video c = Some p"
    using that assms
    by (simp add: onSeeked_def onPlay_def onPause_def handlePlayerAction_def empty_patch_def)
  show ?thesis
    using periodic seeking position handlers by blast
qed

theorem seeking_suppression_witness:
  "isSeeking (example_client\<lparr>isSeeking := True,
     video := Some (example_player\<lparr>player_currentTime := 60\<rparr>)\<rparr>) \<and>
   roomData (example_client\<lparr>isSeeking := True,
     video := Some (example_player\<lparr>player_currentTime := 60\<rparr>)\<rparr>) = Some example_room \<and>
   video (example_client\<lparr>isSeeking := True,
     video := Some (example_player\<lparr>player_currentTime := 60\<rparr>)\<rparr>) =
     Some (example_player\<lparr>player_currentTime := 60\<rparr>) \<and>
   targetTime example_room = Some 120 \<and>
   snd (onTimeUpdate 1700000006000 (example_client\<lparr>isSeeking := True,
     video := Some (example_player\<lparr>player_currentTime := 60\<rparr>)\<rparr>)) = [] \<and>
   SetCurrentTime 120 \<notin> set (fst (snd (sync_effect example_browser
     (example_client\<lparr>isSeeking := True,
        video := Some (example_player\<lparr>player_currentTime := 60\<rparr>)\<rparr>)))) \<and>
   snd (onSeeked (example_client\<lparr>isSeeking := True,
     video := Some (example_player\<lparr>player_currentTime := 60\<rparr>)\<rparr>)) =
     [UpdatePlayback \<lparr>u_currentVideoUrl = None, u_isPlaying = Some True,
        u_currentTime = Some 60, u_lastSeekTime = Some 60, u_hostId = Some ''u1''\<rparr>]"
proof -
  let ?p = "example_player\<lparr>player_currentTime := 60\<rparr>"
  let ?c = "example_client\<lparr>isSeeking := True, video := Some ?p\<rparr>"
  have s: "isSeeking ?c"
    by simp
  have r: "roomData ?c = Some example_room" and p: "video ?c = Some ?p"
    by (simp_all add: example_client_def)
  have target: "targetTime example_room = Some 120"
    by (simp add: targetTime_def example_room_def)
  have pl: "paused ?p = False" "player_currentTime ?p = 60"
    by (simp_all add: example_player_def)
  have id: "userId ?c = ''u1''"
    by (simp add: example_client_def)
  note t = seeking_suppression [OF s, of 1700000006000 120 example_browser example_room ?p]
  from t have "snd (onTimeUpdate 1700000006000 ?c) = []"
    and "SetCurrentTime 120 \<notin> set (fst (snd (sync_effect example_browser ?c)))"
    by blast+
  moreover from t r p have "onSeeked ?c =
      (?c\<lparr>isSeeking := False\<rparr>,
       [UpdatePlayback \<lparr>u_currentVideoUrl = None, u_isPlaying = Some (\<not> paused ?p),
          u_currentTime = Some (player_currentTime ?p),
          u_lastSeekTime = Some (player_currentTime ?p),
          u_hostId = Some (userId ?c)\<rparr>])"
    by blast
  ultimately show ?thesis
    using s r p target by (simp add: pl id)
qed

section \<open>Writes set off by one remote update\<close>

text \<open>
  Claim C1, as the claim states it, fails: the handlers cannot tell an event that an
  inbound correction caused from one the user caused. A paused client at position 0 that
  receives a record playing at 120 is told to play and to jump; the \<^verbatim>\<open>play\<close> event and the
  \<^verbatim>\<open>seeked\<close> event that follow are both written back, with this client as host.
\<close>

theorem remote_update_two_writes:
  "map_option (snd \<circ> snd)
     (onRemoteRoomUpdate 3 example_browser (example_room\<lparr>hostId := ''u2''\<rparr>)
        example_client_paused) =
     Some [UpdatePlayback \<lparr>u_currentVideoUrl = None, u_isPlaying = Some True,
             u_currentTime = Some 120, u_lastSeekTime = None, u_hostId = Some ''u1''\<rparr>,
           UpdatePlayback \<lparr>u_currentVideoUrl = None, u_isPlaying = Some True,
             u_currentTime = Some 120, u_lastSeekTime = Some 120, u_hostId = Some ''u1''\<rparr>]"
  by (simp add: example_defs inbound_defs handler_defs fuel_three seek_landing_def
        double_minus_0_120 double_minus_self)

text \<open>Whatever caused it, an event issues at most one write, and a \<^verbatim>\<open>seeking\<close> event
  none.\<close>

lemma dispatch_at_most_one_write: "length (snd (dispatch c e)) \<le> 1"
  by (cases e)
     (auto simp: dispatch_def onPlay_def onPause_def onSeeked_def onTimeUpdate_def
        handlePlayerAction_def split: option.splits)

lemma update_before_mount:
  assumes "video c = None"
    and "currentVideoUrl r \<noteq> []"
    and "resolve_url env (currentVideoUrl r) = currentVideoUrl r"
    and "case targetTime r of
           Some t \<Rightarrow> 0 \<le> t \<and> t \<le> media_duration env (currentVideoUrl r) | None \<Rightarrow> True"
  shows "\<exists>c' cs ws. onRemoteRoomUpdate 3 env r c = Some (c', cs, ws) \<and>
           list_all (\<lambda>w. is_play_pause_write (userId c) w \<or> is_seek_write (userId c) w) ws \<and>
           length (filter (is_play_pause_write (userId c)) ws) \<le> 1 \<and>
           length (filter (is_seek_write (userId c)) ws) \<le> 1"
  using assms
  by (auto simp: inbound_defs handler_defs write_kind_defs fuel_three seek_landing_within
        double_minus_self split: option.splits)

lemma update_while_seeking:
  assumes "video c = Some p" and "isSeeking c"
    and "currentVideoUrl r \<noteq> []"
    and "resolve_url env (currentVideoUrl r) = currentVideoUrl r"
  shows "\<exists>c' cs ws. onRemoteRoomUpdate 3 env r c = Some (c', cs, ws) \<and>
           list_all (\<lambda>w. is_play_pause_write (userId c) w \<or> is_seek_write (userId c) w) ws \<and>
           length (filter (is_play_pause_write (userId c)) ws) \<le> 1 \<and>
           length (filter (is_seek_write (userId c)) ws) \<le> 1"
  using assms
  by (auto simp: inbound_defs handler_defs write_kind_defs fuel_three split: option.splits)

lemma update_while_not_seeking:
  assumes "video c = Some p" and "\<not> isSeeking c"
    and "currentVideoUrl r \<noteq> []"
    and "resolve_url env (currentVideoUrl r) = currentVideoUrl r"
    and "case targetTime r of
           Some t \<Rightarrow> 0 \<le> t \<and> t \<le> media_duration env (currentVideoUrl r) | None \<Rightarrow> True"
  shows "\<exists>c' cs ws. onRemoteRoomUpdate 3 env r c = Some (c', cs, ws) \<and>
           list_all (\<lambda>w. is_play_pause_write (userId c) w \<or> is_seek_write (userId c) w) ws \<and>
           length (filter (is_play_pause_write (userId c)) ws) \<le> 1 \<and>
           length (filter (is_seek_write (userId c)) ws) \<le> 1"
  using assms
  by (auto simp: inbound_defs handler_defs write_kind_defs fuel_three seek_landing_within
        double_minus_self split: option.splits)

text \<open>The condition on the target is needed: when the medium is one minute long, the
  jump to 120 lands at 60, after \<^verbatim>\<open>seeked\<close> the effect finds the player 60 seconds from
  the target of the record it still holds and forces again, and the processing is not
  over after three steps.\<close>

lemma clamped_seek_forces_again:
  "onRemoteRoomUpdate 3 short_media_browser (example_room\<lparr>hostId := ''u2''\<rparr>)
     example_client_paused = None"
  by (simp add: short_media_browser_def example_defs inbound_defs handler_defs fuel_three
        seek_landing_def double_minus_0_120 double_minus_60_120)

text \<open>
  Claim C1, amended. The inbound effect writes nothing itself, but the \<^verbatim>\<open>play\<close> or
  \<^verbatim>\<open>pause\<close> event and the \<^verbatim>\<open>seeked\<close> event that its commands fire are handled like the
  user's, one write each. For a record whose video URL is the one the player reads back
  as its source and whose target lies within the medium, so that the seek lands on it,
  the processing of one remote update comes to an end (three steps of the event loop are
  enough) and sends at most one play or pause write and at most one seek write, and no
  other write.
\<close>

theorem remote_update_one_write_each:
  assumes "currentVideoUrl r \<noteq> []"
    and "resolve_url env (currentVideoUrl r) = currentVideoUrl r"
    and "case targetTime r of
           Some t \<Rightarrow> 0 \<le> t \<and> t \<le> media_duration env (currentVideoUrl r) | None \<Rightarrow> True"
  shows "\<exists>c' cs ws. onRemoteRoomUpdate 3 env r c = Some (c', cs, ws) \<and>
           list_all (\<lambda>w. is_play_pause_write (userId c) w \<or> is_seek_write (userId c) w) ws \<and>
           length (filter (is_play_pause_write (userId c)) ws) \<le> 1 \<and>
           length (filter (is_seek_write (userId c)) ws) \<le> 1"
proof (cases "video c")
  case None
  then show ?thesis
    using assms by (rule update_before_mount)
next
  case (Some p)
  show ?thesis
  proof (cases "isSeeking c")
    case True
    with Some show ?thesis
      using assms(1,2) by (rule update_while_seeking)
  next
    case False
    with Some show ?thesis
      using assms by (rule update_while_not_seeking)
  qed
qed

theorem remote_update_one_write_each_witness:
  "currentVideoUrl (example_room\<lparr>hostId := ''u2''\<rparr>) \<noteq> [] \<and>
   resolve_url example_browser (currentVideoUrl (example_room\<lparr>hostId := ''u2''\<rparr>)) =
     currentVideoUrl (example_room\<lparr>hostId := ''u2''\<rparr>) \<and>
   targetTime (example_room\<lparr>hostId := ''u2''\<rparr>) = Some 120 \<and>
   120 \<le> media_duration example_browser (currentVideoUrl (example_room\<lparr>hostId := ''u2''\<rparr>)) \<and>
   (\<exists>c' cs ws.
      onRemoteRoomUpdate 3 example_browser (example_room\<lparr>hostId := ''u2''\<rparr>)
        example_client_paused = Some (c', cs, ws) \<and>
      list_all (\<lambda>w. is_play_pause_write ''u1'' w \<or> is_seek_write ''u1'' w) ws \<and>
      length (filter (is_play_pause_write ''u1'') ws) \<le> 1 \<and>
      length (filter (is_seek_write ''u1'') ws) \<le> 1)"
proof -
  let ?r = "example_room\<lparr>hostId := ''u2''\<rparr>"
  have url: "currentVideoUrl ?r \<noteq> []"
    and canonical: "resolve_url example_browser (currentVideoUrl ?r) = currentVideoUrl ?r"
    by (simp_all add: example_room_def example_browser_def)
  have target: "targetTime ?r = Some 120"
    by (simp add: targetTime_def example_room_def)
  have long: "120 \<le> media_duration example_browser (currentVideoUrl ?r)"
    by (simp add: example_browser_def)
  have within: "case targetTime ?r of
      Some t \<Rightarrow> 0 \<le> t \<and> t \<le> media_duration example_browser (currentVideoUrl ?r)
    | None \<Rightarrow> True"
    using long by (simp add: target)
  have id: "userId example_client_paused = ''u1''"
    by (simp add: example_client_paused_def example_client_def)
  note t = remote_update_one_write_each [OF url canonical within, of example_client_paused]
  show ?thesis
    using url canonical target long t by (simp only: id simp_thms)
qed

section \<open>The host is a participant\<close>

lemma createRoom_host_participant:
  assumes "w \<in> set (createRoom u name rid)" and "apply_write ts w d = Some r"
  shows "hostId r = u \<and> dom (participants r) = {u}"
  using assms by (auto simp: createRoom_def apply_write_def split: if_splits)

lemma joinRoom_adds_participant:
  assumes "w \<in> set (joinRoom u name rid True)" and "apply_write ts w (Some r) = Some r'"
  shows "hostId r' = hostId r \<and> dom (participants r') = insert u (dom (participants r))"
  using assms by (auto simp: joinRoom_def apply_write_def split: if_splits)

lemma handlePlayerAction_claims_host:
  assumes "w \<in> set (snd (handlePlayerAction c a))"
  shows "\<exists>u. w = UpdatePlayback u \<and> u_hostId u = Some (userId c)"
  using assms
  by (cases a) (auto simp: handlePlayerAction_def empty_patch_def split: option.splits if_splits)

lemma onTimeUpdate_keeps_host:
  assumes "w \<in> set (snd (onTimeUpdate now c))"
  shows "\<exists>u. w = UpdatePlayback u \<and> u_hostId u = None"
  using assms
  by (auto simp: onTimeUpdate_def empty_patch_def split: option.splits if_splits)

lemma apply_patch_participants: "participants (apply_patch u r) = participants r"
  by (simp add: apply_patch_def)

lemma apply_patch_hostId:
  "hostId (apply_patch u r) = (case u_hostId u of Some h \<Rightarrow> h | None \<Rightarrow> hostId r)"
  by (simp add: apply_patch_def)

text \<open>As long as no room creation hits the id of an existing room, the host is a
  participant in every state the room reaches, and so is every user mounted for it.\<close>

lemma reachable_members:
  "reachable False r M \<Longrightarrow> hostId r \<in> dom (participants r) \<and> M \<subseteq> dom (participants r)"
proof (induction rule: reachable.induct)
  case (created w u name rid ts r)
  from createRoom_host_participant [OF created.hyps] show ?case
    by simp
next
  case (recreated r M w u name ts r')
  then show ?case
    by simp
next
  case (joined r M w u name ts r')
  from joinRoom_adds_participant [OF joined.hyps(2) joined.hyps(3)] joined.IH show ?case
    by auto
next
  case (acted r M c w a ts r')
  from acted.hyps(3) obtain u where w: "w = UpdatePlayback u" and h: "u_hostId u = Some (userId c)"
    using handlePlayerAction_claims_host by blast
  from acted.hyps(4) w have r': "r' = apply_patch u r"
    by (simp add: apply_write_def)
  from acted.IH acted.hyps(2) have "userId c \<in> dom (participants r)"
    by blast
  with acted.IH show ?case
    by (simp add: r' apply_patch_participants apply_patch_hostId h)
next
  case (drifted r M c w now ts r')
  from drifted.hyps(3) obtain u where w: "w = UpdatePlayback u" and h: "u_hostId u = None"
    using onTimeUpdate_keeps_host by blast
  from drifted.hyps(4) w have r': "r' = apply_patch u r"
    by (simp add: apply_write_def)
  with drifted.IH show ?case
    by (simp add: apply_patch_participants apply_patch_hostId h)
next
  case (refreshed r M u w ts r')
  then show ?case
    by (auto simp: heartbeat_def apply_write_def split: if_splits)
qed

text \<open>
  Claim C9 asks that \<^verbatim>\<open>hostId\<close> is a key of \<^verbatim>\<open>participants\<close> once an action has occurred.
  \<^verbatim>\<open>createRoom\<close> writes the new room with \<^verbatim>\<open>setDoc\<close> under a random id without checking
  that no room has it (\<^verbatim>\<open>joinRoom\<close> does check). When \<open>u3\<close> draws the id of the room that
  \<open>u1\<close> created and \<open>u2\<close> joined, the document is replaced and \<open>u3\<close> is its only participant;
  \<open>u2\<close>, still in the room, then presses play and becomes host without being a participant.
\<close>

theorem overwritten_room_host_not_participant:
  "reachable True
     \<lparr>room_id = ''abcd1234'', currentVideoUrl = [], isPlaying = True, currentTime = Some 0,
      lastSeekTime = None, hostId = ''u2'', createdAt = 2,
      participants = [''u3'' \<mapsto> new_participant ''Caio'' 2]\<rparr>
     {''u3'', ''u2'', ''u1''} \<and>
   ''u2'' \<notin> dom [''u3'' \<mapsto> new_participant ''Caio'' 2]"
proof -
  let ?r0 = "\<lparr>room_id = ''abcd1234'', currentVideoUrl = [], isPlaying = False,
      currentTime = Some 0, lastSeekTime = None, hostId = ''u1'', createdAt = 0,
      participants = [''u1'' \<mapsto> new_participant ''Ana'' 0]\<rparr>"
  let ?r1 = "?r0\<lparr>participants := [''u1'' \<mapsto> new_participant ''Ana'' 0,
      ''u2'' \<mapsto> new_participant ''Bia'' 1]\<rparr>"
  let ?r2 = "\<lparr>room_id = ''abcd1234'', currentVideoUrl = [], isPlaying = False,
      currentTime = Some 0, lastSeekTime = None, hostId = ''u3'', createdAt = 2,
      participants = [''u3'' \<mapsto> new_participant ''Caio'' 2]\<rparr>"
  let ?c = "\<lparr>userId = ''u2'', roomData = Some ?r2,
      video = Some \<lparr>src = [], paused = False, player_currentTime = 0\<rparr>,
      isSeeking = False, error = NoError, videoUrlInput = [],
      lastFirestoreUpdateTime = 0, left = False\<rparr>"
  have "reachable True ?r0 {''u1''}"
    by (rule reachable.created [where w = "SetRoom ''abcd1234'' ''u1'' ''Ana''" and ts = 0
          and name = "''Ana''" and rid = "''abcd1234''"])
       (simp_all add: createRoom_def apply_write_def)
  then have "reachable True ?r1 (insert ''u2'' {''u1''})"
    by (rule reachable.joined [where w = "UpdateParticipant ''u2'' ''Bia''" and ts = 1
          and name = "''Bia''"])
       (simp_all add: joinRoom_def apply_write_def trim_def is_ws_def)
  then have "reachable True ?r2 (insert ''u3'' (insert ''u2'' {''u1''}))"
    by (rule reachable.recreated [where w = "SetRoom ''abcd1234'' ''u3'' ''Caio''" and ts = 2
          and name = "''Caio''"])
       (simp_all add: createRoom_def apply_write_def)
  then have "reachable True (apply_patch (empty_patch\<lparr>u_isPlaying := Some True,
        u_currentTime := Some 0, u_hostId := Some ''u2''\<rparr>) ?r2)
      (insert ''u3'' (insert ''u2'' {''u1''}))"
    by (rule reachable.acted [where c = ?c and a = PLAY and ts = 3
          and w = "UpdatePlayback (empty_patch\<lparr>u_isPlaying := Some True,
            u_currentTime := Some 0, u_hostId := Some ''u2''\<rparr>)"])
       (simp_all add: handlePlayerAction_def apply_write_def)
  then show ?thesis
    by (simp add: apply_patch_def empty_patch_def)
qed

end
